theory Spec2Isabelle
  imports Complex_Main "HOL-Library.Multiset"
begin

section \<open>JavaScript values\<close>

text \<open>
  The server is JavaScript. A number is NaN, an infinity or a finite value; every finite
  double is a rational. The numbers are compared, and a day of the month is added to a
  number of days.
\<close>

datatype jsnum = NaN | NegInf | Fin rat | PosInf

text \<open>
  A value as it arrives in a parsed JSON body. \<open>JUndefined\<close> is a missing field,
  \<open>JObj\<close> an object or array whose contents are not inspected.
\<close>

datatype jsval = JUndefined | JNull | JBool bool | JNum jsnum | JStr string | JObj

text \<open>Truthiness, as used by \<open>x ? a : b\<close>, \<open>!x\<close> and \<open>x || y\<close>.\<close>

fun truthy :: "jsval \<Rightarrow> bool" where
  "truthy JUndefined = False"
| "truthy JNull = False"
| "truthy (JBool b) = b"
| "truthy (JNum NaN) = False"
| "truthy (JNum (Fin r)) = (r \<noteq> 0)"
| "truthy (JNum _) = True"
| "truthy (JStr s) = (s \<noteq> [])"
| "truthy JObj = True"

text \<open>
  ToNumber. The conversion of a string or of an object is the language runtime's
  (StringToNumber, ToPrimitive); it is the parameter \<open>conv\<close>.
\<close>

fun ToNumber :: "(jsval \<Rightarrow> jsnum) \<Rightarrow> jsval \<Rightarrow> jsnum" where
  "ToNumber conv JUndefined = NaN"
| "ToNumber conv JNull = Fin 0"
| "ToNumber conv (JBool b) = Fin (if b then 1 else 0)"
| "ToNumber conv (JNum n) = n"
| "ToNumber conv (JStr s) = conv (JStr s)"
| "ToNumber conv JObj = conv JObj"

text \<open>The relational operator \<open>a > b\<close> on numbers: false whenever an operand is NaN.\<close>

fun js_gt :: "jsnum \<Rightarrow> jsnum \<Rightarrow> bool" where
  "js_gt NaN _ = False"
| "js_gt _ NaN = False"
| "js_gt NegInf _ = False"
| "js_gt _ PosInf = False"
| "js_gt PosInf _ = True"
| "js_gt (Fin a) NegInf = True"
| "js_gt (Fin a) (Fin b) = (a > b)"

section \<open>Sensor logic\<close>

text \<open>The sensor fields of the request body read by \<open>runSensorLogic\<close>.\<close>

record sensor_data =
  gas_level_percent :: jsval
  door_status :: jsval

record alert_state =
  is_alert :: bool
  alert_reason :: string

definition runSensorLogic :: "(jsval \<Rightarrow> jsnum) \<Rightarrow> 'a sensor_data_scheme \<Rightarrow> alert_state" where
  "runSensorLogic conv data =
     (if js_gt (ToNumber conv (gas_level_percent data)) (Fin 50)
      then \<lparr>is_alert = True, alert_reason = ''Sensor Alert: High gas level detected!''\<rparr>
      else if door_status data = JStr ''open''
      then \<lparr>is_alert = True, alert_reason = ''Sensor Alert: Door is open.''\<rparr>
      else \<lparr>is_alert = False, alert_reason = ''Sensor: All clear.''\<rparr>)"

section \<open>Strings\<close>

text \<open>
  A string is a list of code units; the model covers code units below 256, read as
  Latin-1. There the white space of \<open>trim\<close> and of the regular expression class
  \<open>\s\<close> is tab, line feed, vertical tab, form feed, carriage return, space and
  no-break space, and the line terminators (which \<open>.\<close> does not match) are line feed
  and carriage return.
\<close>

definition js_space :: "char \<Rightarrow> bool" where
  "js_space c = (c \<in> {CHR 0x09, CHR 0x0A, CHR 0x0B, CHR 0x0C, CHR 0x0D, CHR 0x20, CHR 0xA0})"

definition line_terminator :: "char \<Rightarrow> bool" where
  "line_terminator c = (c \<in> {CHR 0x0A, CHR 0x0D})"

definition js_trim :: "string \<Rightarrow> string" where
  "js_trim s = rev (dropWhile js_space (rev (dropWhile js_space s)))"

text \<open>
  Case-insensitive comparison of a code unit with an ASCII pattern character: the flag
  \<open>i\<close> compares upper-cased code units, and no code unit outside ASCII is folded onto
  an ASCII one. \<open>upper_ascii\<close> is the code of the upper-cased code unit.
\<close>

definition upper_ascii :: "char \<Rightarrow> nat" where
  "upper_ascii c = (let n = (of_char c :: nat) in if 97 \<le> n \<and> n \<le> 122 then n - 32 else n)"

fun ci_prefix :: "string \<Rightarrow> string \<Rightarrow> bool" where
  "ci_prefix [] s = True"
| "ci_prefix (p # ps) [] = False"
| "ci_prefix (p # ps) (c # cs) = (upper_ascii p = upper_ascii c \<and> ci_prefix ps cs)"

text \<open>
  \<open>s.match(/LABEL\s*(.*)/i)\<close>: the leftmost position where the label matches; there
  \<open>\s*\<close> takes all the white space that follows (line breaks too) and the group takes
  the rest of the line. The result is group 1, or None when there is no match.
\<close>

fun label_match :: "string \<Rightarrow> string \<Rightarrow> string option" where
  "label_match lbl [] = (if ci_prefix lbl [] then Some [] else None)"
| "label_match lbl (c # cs) =
     (if ci_prefix lbl (c # cs)
      then Some (takeWhile (\<lambda>x. \<not> line_terminator x)
                  (dropWhile js_space (drop (length lbl) (c # cs))))
      else label_match lbl cs)"

text \<open>\<open>s.split(sep)\<close> for a non-empty string separator.\<close>

function split_from :: "string \<Rightarrow> string \<Rightarrow> string \<Rightarrow> string list" where
  "split_from sep acc [] = [rev acc]"
| "split_from sep acc (c # cs) =
     (if sep \<noteq> [] \<and> take (length sep) (c # cs) = sep
      then rev acc # split_from sep [] (drop (length sep) (c # cs))
      else split_from sep (c # acc) cs)"
  by pat_completeness auto
termination
  by (relation "measure (\<lambda>(sep, acc, s). length s)") auto

definition js_split :: "string \<Rightarrow> string \<Rightarrow> string list" where
  "js_split sep s = split_from sep [] s"

text \<open>\<open>s.replace(pat, '')\<close> for a string pattern: the first occurrence is removed.\<close>

fun remove_first :: "string \<Rightarrow> string \<Rightarrow> string" where
  "remove_first pat [] = []"
| "remove_first pat (c # cs) =
     (if take (length pat) (c # cs) = pat then drop (length pat) (c # cs)
      else c # remove_first pat cs)"

text \<open>\<open>s.replace(/^[0-9]\.\s*/, '')\<close>.\<close>

definition is_digit :: "char \<Rightarrow> bool" where
  "is_digit c = (let n = (of_char c :: nat) in 48 \<le> n \<and> n \<le> 57)"

definition strip_enum :: "string \<Rightarrow> string" where
  "strip_enum s =
     (case s of
        d # p # rest \<Rightarrow> if is_digit d \<and> p = CHR ''.'' then dropWhile js_space rest else s
      | _ \<Rightarrow> s)"

text \<open>\<open>xs.join(sep)\<close> on strings.\<close>

fun join_with :: "string \<Rightarrow> string list \<Rightarrow> string" where
  "join_with sep [] = []"
| "join_with sep [x] = x"
| "join_with sep (x # y # ys) = x @ sep @ join_with sep (y # ys)"

section \<open>Recipe generation\<close>

record recipe =
  title :: string
  description :: string

text \<open>
  The hosted text-generation call: it rejects with an error message, or it resolves to a
  response whose \<open>generated_text\<close> field is the given value.
\<close>

datatype hf_outcome = HFRejected string | HFResponse jsval

text \<open>What the \<open>catch\<close> of \<open>getRecipeFromHF\<close> can receive.\<close>

datatype hf_exn = HFError string | TypeError

text \<open>Console output of the server, one entry per call of \<open>console.error\<close> that matters here.\<close>

datatype log_entry =
    HFTextGenerationError hf_exn
  | FridgeUpdateFailed
  | EventInsertError
  | ProcessingFailed
  | RecipeFailed

text \<open>
  An element of the name array in \<open>objects.join(', ')\<close>: undefined and null give the empty
  string, a string itself; the text of any other value is the runtime's \<open>ToString\<close>,
  the parameter \<open>tostr\<close>.
\<close>

fun join_elem :: "(jsval \<Rightarrow> string) \<Rightarrow> jsval \<Rightarrow> string" where
  "join_elem tostr JUndefined = []"
| "join_elem tostr JNull = []"
| "join_elem tostr (JStr s) = s"
| "join_elem tostr v = tostr v"

definition prompt :: "(jsval \<Rightarrow> string) \<Rightarrow> jsval list \<Rightarrow> string" where
  "prompt tostr objects =
     ''Create a list of 3 simple recipe ideas using: '' @
     join_with '', '' (map (join_elem tostr) objects) @
     ''. Prioritize using these items first. For each recipe, provide a title and a one-sentence description. Format each as: '' @
     [CHR 0x22] @ ''Title: [Recipe Title]'' @ [CHR 0x0A] @
     ''Description: [Recipe Description]'' @ [CHR 0x22] @
     '' and separate each entry with '' @ [CHR 0x22] @ ''---'' @ [CHR 0x22] @ ''.''"

text \<open>The body of the loop over the blocks: the recipes one block contributes.\<close>

definition parse_block :: "string \<Rightarrow> recipe list" where
  "parse_block block =
     (case (label_match ''Title:'' block, label_match ''Description:'' block) of
        (Some t, Some d) \<Rightarrow> [\<lparr>title = js_trim t, description = js_trim d\<rparr>]
      | _ \<Rightarrow>
         if length (js_trim block) > 10
         then (case js_split [CHR 0x0A] (js_trim block) of
                 l0 # l1 # _ \<Rightarrow> [\<lparr>title = js_trim (strip_enum l0), description = js_trim l1\<rparr>]
               | _ \<Rightarrow> [])
         else [])"

definition parse_generated :: "string \<Rightarrow> recipe list" where
  "parse_generated generatedText =
     (let parsedRecipes = concat (map parse_block (js_split ''---'' generatedText))
      in if length parsedRecipes = 0 \<and> length generatedText > 0
         then [\<lparr>title = ''Generated Recipes (Parsing Failed)'', description = generatedText\<rparr>]
         else parsedRecipes)"

definition generated_text_of :: "string \<Rightarrow> string \<Rightarrow> string" where
  "generated_text_of prompt_text response = js_trim (remove_first prompt_text response)"

definition failed_recipes :: "recipe list" where
  "failed_recipes =
     [\<lparr>title = ''Recipe Generation Failed'',
       description = ''Could not generate recipe. Check server logs.''\<rparr>]"

text \<open>
  \<open>getRecipeFromHF\<close>: the recipes returned, the console entries written and the prompts
  sent to the text-generation service \<open>hf\<close>. The function has no exceptional result:
  the call and the parsing are inside its \<open>try\<close>.
\<close>

definition getRecipeFromHF ::
  "(jsval \<Rightarrow> string) \<Rightarrow> (string \<Rightarrow> hf_outcome) \<Rightarrow> jsval list
     \<Rightarrow> recipe list \<times> log_entry list \<times> string list" where
  "getRecipeFromHF tostr hf objects =
     (if length objects > 0
      then (case hf (prompt tostr objects) of
              HFRejected msg \<Rightarrow>
                (failed_recipes, [HFTextGenerationError (HFError msg)], [prompt tostr objects])
            | HFResponse (JStr text) \<Rightarrow>
                (parse_generated (generated_text_of (prompt tostr objects) text), [],
                 [prompt tostr objects])
            | HFResponse _ \<Rightarrow>
                (failed_recipes, [HFTextGenerationError TypeError], [prompt tostr objects]))
      else ([], [], []))"

subsection \<open>The parsing policy in the specification's words\<close>

text \<open>
  The specification extracts "the text following a label, case-insensitive". Read on the
  label's own line: \<open>label_pos\<close> is the index of the first occurrence of the label and
  \<open>spec_labelled_text\<close> the rest of that line after it.
\<close>

fun label_pos :: "string \<Rightarrow> string \<Rightarrow> nat option" where
  "label_pos lbl [] = (if ci_prefix lbl [] then Some 0 else None)"
| "label_pos lbl (c # cs) =
     (if ci_prefix lbl (c # cs) then Some 0 else map_option Suc (label_pos lbl cs))"

definition spec_labelled_text :: "string \<Rightarrow> string \<Rightarrow> string option" where
  "spec_labelled_text lbl block =
     map_option (\<lambda>i. takeWhile (\<lambda>x. \<not> line_terminator x) (drop (i + length lbl) block))
       (label_pos lbl block)"

definition blank :: "string \<Rightarrow> bool" where
  "blank s = (dropWhile js_space s = [])"

definition has_labelled_text :: "string \<Rightarrow> string \<Rightarrow> bool" where
  "has_labelled_text lbl block =
     (case spec_labelled_text lbl block of None \<Rightarrow> False | Some t \<Rightarrow> \<not> blank t)"

definition spec_recipe :: "string \<Rightarrow> recipe" where
  "spec_recipe block =
     \<lparr>title = js_trim (the (spec_labelled_text ''Title:'' block)),
      description = js_trim (the (spec_labelled_text ''Description:'' block))\<rparr>"

text \<open>A response of two well-formed blocks, used to run the parser.\<close>

definition two_blocks :: string where
  "two_blocks = ''Title: Milk Shake '' @ [CHR 0x0A] @ ''description:  Blend it.'' @ [CHR 0x0A] @ ''---'' @
                [CHR 0x0A] @ ''TITLE:Toast'' @ [CHR 0x0A] @ ''Description: Grill the bread.''"

section \<open>The stores\<close>

text \<open>
  An item detected by the vision script: its name, its expiration date and the other
  attributes, passed through as they are (\<open>others\<close> holds the attributes other than
  name, expiration_date, last_seen and _id). The type of the date is a parameter: a
  detected item carries any JSON value, a stored one a date or null.
\<close>

record 'd item =
  name :: jsval
  expiration_date :: 'd
  others :: "(string \<times> jsval) list"

text \<open>A stored date is a time value in milliseconds, or null.\<close>

datatype bson_date = BNull | BDate int

text \<open>
  A document of the collection \<open>fridge_items\<close>: the item, the time of the ingest cycle
  and the identifier the store assigns.
\<close>

record 'd fridge_item = "'d item" +
  last_seen :: int
  doc_id :: nat

type_synonym detected_item = "jsval item"
type_synonym stored_item = "bson_date fridge_item"

text \<open>The request body of the ingest route.\<close>

record pi_data = sensor_data +
  image_base64 :: jsval
  event :: jsval

record ml_result = alert_state +
  detected_items :: "detected_item list"

text \<open>A document of the collection \<open>events\<close>: the body, its time stamp and the result.\<close>

record event_doc =
  ev_data :: pi_data
  server_timestamp :: int
  ev_ml_result :: ml_result

text \<open>
  The database and the log file. \<open>next_id\<close> is the next identifier the store assigns.
\<close>

record db =
  fridge_items :: "stored_item list"
  events :: "event_doc list"
  next_id :: nat
  log_file :: "(jsval \<times> int) list"

section \<open>The vision script\<close>

text \<open>
  The JSON printed by the script: its \<open>error\<close> field and its \<open>detected_items\<close>
  field (None when the field is missing or null).
\<close>

record vision_json =
  vj_error :: jsval
  vj_detected_items :: "detected_item list option"

text \<open>
  One run of the script. \<open>uncaught_error\<close>: the child process or its input stream
  emits an \<open>error\<close> event (the script could not be spawned, or the pipe broke while the
  input was being written); \<open>invokeLocalVision\<close> registers no listener for it, so the
  exception is uncaught and the server process exits. \<open>stdin_write_fails\<close>: the call
  that writes the input throws, which the \<open>try\<close> around it catches. Then the exit code,
  what the script wrote to the error stream, and its output parsed as JSON (None when
  \<open>JSON.parse\<close> throws or the result has no fields to read).
\<close>

record vision_run =
  uncaught_error :: bool
  stdin_write_fails :: bool
  exit_code :: int
  scriptError :: string
  scriptOutput :: "vision_json option"

datatype vision_error =
    WriteFailed
  | PythonScriptFailed string
  | ParseFailed
  | ScriptReported jsval

text \<open>
  The promise of \<open>invokeLocalVision\<close> is rejected, is resolved, or is never settled
  because the process has exited on the uncaught exception.
\<close>

datatype vision_outcome = Crashed | Rejected vision_error | Resolved vision_json

definition invokeLocalVision :: "vision_run \<Rightarrow> vision_outcome" where
  "invokeLocalVision run =
     (if uncaught_error run then Crashed
      else if stdin_write_fails run then Rejected WriteFailed
      else if exit_code run \<noteq> 0 then Rejected (PythonScriptFailed (scriptError run))
      else (case scriptOutput run of
              None \<Rightarrow> Rejected ParseFailed
            | Some result \<Rightarrow>
                if truthy (vj_error result) then Rejected (ScriptReported (vj_error result))
                else Resolved result))"

section \<open>The ingest route\<close>

datatype insert_many_outcome = InsertedAll | FailedAfter nat

datatype insert_one_outcome = InsertOneOk | InsertOneThrows | InsertOneRejects

text \<open>
  What the handler of \<open>POST /api/pi-data\<close> meets outside itself: the clock, the run of
  the vision script, the outcome of each database call and of the write to the log file,
  and two conversions of the runtime: \<open>num_of\<close> (the number a string or an object
  converts to) and \<open>date_ms\<close> (the time value stored for \<open>new Date(v)\<close>).
  An ordered \<open>insertMany\<close> that fails has inserted the documents before the failing one.
  \<open>InsertOneThrows\<close> is a call of \<open>insertOne\<close> that throws, \<open>InsertOneRejects\<close>
  one whose promise rejects later.
\<close>

record ingest_env =
  server_clock :: int
  vision :: vision_run
  num_of :: "jsval \<Rightarrow> jsnum"
  date_ms :: "jsval \<Rightarrow> int"
  appendFile_fails :: bool
  deleteMany_fails :: bool
  insertMany_outcome :: insert_many_outcome
  insertOne_outcome :: insert_one_outcome

datatype ingest_response =
    NoImage
  | ProcessingError vision_error
  | IngestSuccess jsval ml_result

fun ingest_status :: "ingest_response \<Rightarrow> nat" where
  "ingest_status NoImage = 400"
| "ingest_status (ProcessingError e) = 500"
| "ingest_status (IngestSuccess ev r) = 200"

text \<open>
  The result of one request: the response (None when the process exits before any
  response is sent), the database afterwards, the entries written with
  \<open>console.error\<close>, and whether a promise was left rejected with no handler.
\<close>

record ingest_result =
  response :: "ingest_response option"
  db_after :: db
  console :: "log_entry list"
  unhandled_rejection :: bool

text \<open>
  The documents of one cycle: \<open>itemsToInsert\<close> of the handler, with the identifiers
  that \<open>insertMany\<close> assigns, counted from \<open>first_id\<close>.
\<close>

definition itemsToInsert :: "(jsval \<Rightarrow> int) \<Rightarrow> int \<Rightarrow> detected_item list \<Rightarrow> nat \<Rightarrow> stored_item list" where
  "itemsToInsert dms ts items first_id =
     map (\<lambda>(item, i).
            \<lparr>name = name item,
             expiration_date =
               (if truthy (expiration_date item) then BDate (dms (expiration_date item)) else BNull),
             others = others item,
             last_seen = ts,
             doc_id = first_id + i\<rparr>)
         (zip items [0 ..< length items])"

text \<open>Step 7 of the handler: the fridge state is cleared and the detected items inserted.\<close>

definition update_fridge :: "ingest_env \<Rightarrow> detected_item list \<Rightarrow> db \<Rightarrow> db \<times> log_entry list" where
  "update_fridge env items d =
     (if deleteMany_fails env then (d, [FridgeUpdateFailed])
      else
        let d1 = d\<lparr>fridge_items := []\<rparr> in
        if length items > 0
        then
          let docs = itemsToInsert (date_ms env) (server_clock env) items (next_id d1) in
          (case insertMany_outcome env of
             InsertedAll \<Rightarrow>
               (d1\<lparr>fridge_items := docs, next_id := next_id d1 + length docs\<rparr>, [])
           | FailedAfter k \<Rightarrow>
               (d1\<lparr>fridge_items := take k docs, next_id := next_id d1 + length (take k docs)\<rparr>,
                [FridgeUpdateFailed]))
        else (d1, []))"

text \<open>Step 8: the event is inserted without waiting for the outcome.\<close>

definition save_event :: "ingest_env \<Rightarrow> event_doc \<Rightarrow> db \<Rightarrow> db \<times> log_entry list \<times> bool" where
  "save_event env doc d =
     (case insertOne_outcome env of
        InsertOneOk \<Rightarrow> (d\<lparr>events := events d @ [doc]\<rparr>, [], False)
      | InsertOneThrows \<Rightarrow> (d, [EventInsertError], False)
      | InsertOneRejects \<Rightarrow> (d, [], True))"

definition pi_data_handler :: "ingest_env \<Rightarrow> pi_data option \<Rightarrow> db \<Rightarrow> ingest_result" where
  "pi_data_handler env body d =
     (case body of
        None \<Rightarrow>
          \<lparr>response = Some NoImage, db_after = d, console = [], unhandled_rejection = False\<rparr>
      | Some data \<Rightarrow>
          if \<not> truthy (image_base64 data)
          then \<lparr>response = Some NoImage, db_after = d, console = [],
                unhandled_rejection = False\<rparr>
          else
            let d0 = (if appendFile_fails env then d
                      else d\<lparr>log_file := log_file d @ [(event data, server_clock env)]\<rparr>) in
            (case invokeLocalVision (vision env) of
               Crashed \<Rightarrow>
                 \<lparr>response = None, db_after = d0, console = [], unhandled_rejection = False\<rparr>
             | Rejected err \<Rightarrow>
                 \<lparr>response = Some (ProcessingError err), db_after = d0,
                  console = [ProcessingFailed],
                  unhandled_rejection = False\<rparr>
             | Resolved visionResult \<Rightarrow>
                 let sensorResult = runSensorLogic (num_of env) data;
                     finalMLResult =
                       \<lparr>is_alert = is_alert sensorResult,
                        alert_reason = alert_reason sensorResult,
                        detected_items =
                          (case vj_detected_items visionResult of None \<Rightarrow> [] | Some xs \<Rightarrow> xs)\<rparr>;
                     (d1, log1) = update_fridge env (detected_items finalMLResult) d0;
                     (d2, log2, unhandled) =
                       save_event env
                         \<lparr>ev_data = data, server_timestamp = server_clock env,
                          ev_ml_result = finalMLResult\<rparr> d1
                 in \<lparr>response = Some (IngestSuccess (event data) finalMLResult), db_after = d2,
                     console = log1 @ log2, unhandled_rejection = unhandled\<rparr>))"

section \<open>The fridge contents route\<close>

datatype contents_response = ContentsSuccess nat "stored_item list" | ContentsError

definition fridge_contents_handler :: "bool \<Rightarrow> db \<Rightarrow> contents_response" where
  "fridge_contents_handler find_fails d =
     (if find_fails then ContentsError
      else ContentsSuccess (length (fridge_items d)) (fridge_items d))"

section \<open>The recipe route\<close>

text \<open>
  \<open>find({expiration_date: {$gte: start, $lte: end}})\<close>: a comparison with a date
  matches date fields only, so a document whose field is null is not matched.
\<close>

definition queryExpiringBetween :: "int \<Rightarrow> int \<Rightarrow> stored_item list \<Rightarrow> stored_item list" where
  "queryExpiringBetween start end' docs =
     filter (\<lambda>doc. case expiration_date doc of
                     BNull \<Rightarrow> False
                   | BDate t \<Rightarrow> start \<le> t \<and> t \<le> end') docs"

text \<open>
  The operator \<open>+\<close> on numbers. The sum of two finite numbers is exact on the integers
  a double holds exactly, which covers a day of the month plus a number of up to 15 digits.
\<close>

fun js_add :: "jsnum \<Rightarrow> jsnum \<Rightarrow> jsnum" where
  "js_add NaN _ = NaN"
| "js_add _ NaN = NaN"
| "js_add PosInf NegInf = NaN"
| "js_add NegInf PosInf = NaN"
| "js_add PosInf _ = PosInf"
| "js_add _ PosInf = PosInf"
| "js_add NegInf _ = NegInf"
| "js_add _ NegInf = NegInf"
| "js_add (Fin a) (Fin b) = Fin (a + b)"

text \<open>
  \<open>parseInt(s, 10)\<close>: leading white space is skipped, a sign is read, and the longest
  run of decimal digits is the value; with no digit the result is NaN. Up to 15 digits the
  value is exact; the number a longer run rounds to is the runtime's, the parameter
  \<open>big\<close>.
\<close>

definition digits_value :: "string \<Rightarrow> int" where
  "digits_value z = foldl (\<lambda>a c. 10 * a + (int (of_char c) - 48)) 0 z"

definition parseInt10 :: "(string \<Rightarrow> jsnum) \<Rightarrow> string \<Rightarrow> jsnum" where
  "parseInt10 big s =
     (let t = dropWhile js_space s;
          neg = (t \<noteq> [] \<and> hd t = CHR ''-'');
          u = (if t \<noteq> [] \<and> (hd t = CHR ''+'' \<or> hd t = CHR ''-'') then tl t else t);
          z = takeWhile is_digit u
      in if z = [] then NaN
         else if length z > 15 then big s
         else Fin (of_int ((if neg then - 1 else 1) * digits_value z)))"

text \<open>
  \<open>date.setDate(dt)\<close> on a valid date with time value \<open>t\<close>: the new time value, or
  None when the date becomes invalid. A day that is not finite makes the date invalid;
  for a finite day the calendar arithmetic in local time is the runtime's, the parameter
  \<open>cal\<close>.
\<close>

definition Date_setDate :: "(int \<Rightarrow> rat \<Rightarrow> int option) \<Rightarrow> int \<Rightarrow> jsnum \<Rightarrow> int option" where
  "Date_setDate cal t dt = (case dt of Fin d \<Rightarrow> cal t d | _ \<Rightarrow> None)"

text \<open>
  What the handler of \<open>GET /api/recipe\<close> meets outside itself: the two readings of the
  clock, the day of the month of a time value and the calendar arithmetic (local time),
  the outcome of the two database reads, the documents \<open>$sample\<close> picks, the runtime's
  conversion of a value to a string, and the text-generation service.
\<close>

record recipe_env =
  clock_today :: int
  clock_limit :: int
  getDate :: "int \<Rightarrow> int"
  set_day :: "int \<Rightarrow> rat \<Rightarrow> int option"
  big_int :: "string \<Rightarrow> jsnum"
  find_fails :: bool
  aggregate_fails :: bool
  sample :: "nat \<Rightarrow> stored_item list \<Rightarrow> stored_item list"
  str_of :: "jsval \<Rightarrow> string"
  textGeneration :: "string \<Rightarrow> hf_outcome"

datatype recipe_response =
    RecipeSuccess "jsval list" "recipe list"
  | NoItemsFound
  | RecipeError

fun recipe_status :: "recipe_response \<Rightarrow> nat" where
  "recipe_status (RecipeSuccess names rs) = 200"
| "recipe_status NoItemsFound = 404"
| "recipe_status RecipeError = 500"

datatype store_query = FindExpiring int int | Sample nat

text \<open>
  The result of one request: the response, the console entries, the queries sent to the
  store and the prompts sent to the text-generation service.
\<close>

record recipe_result =
  recipe_response :: recipe_response
  recipe_console :: "log_entry list"
  store_queries :: "store_query list"
  hf_prompts :: "string list"

text \<open>The end of the handler, from the test of the name list on.\<close>

definition recipe_for_names :: "recipe_env \<Rightarrow> store_query list \<Rightarrow> jsval list \<Rightarrow> recipe_result" where
  "recipe_for_names env queries itemsList =
     (if length itemsList = 0
      then \<lparr>recipe_response = NoItemsFound, recipe_console = [], store_queries = queries,
            hf_prompts = []\<rparr>
      else (case getRecipeFromHF (str_of env) (textGeneration env) itemsList of
              (recipes, logged, prompts) \<Rightarrow>
                \<lparr>recipe_response = RecipeSuccess itemsList recipes, recipe_console = logged,
                 store_queries = queries, hf_prompts = prompts\<rparr>))"

text \<open>
  The handler. \<open>days_to_expire\<close> is the query parameter parsed, or 3 when it is missing
  or empty; \<open>expiry_limit\<close> is the end of the window, None when that date is invalid.
  The log line before the query formats both dates with \<open>toISOString\<close>, which throws a
  RangeError on an invalid date; the \<open>catch\<close> of the handler answers 500.
\<close>

definition days_to_expire :: "recipe_env \<Rightarrow> string option \<Rightarrow> jsnum" where
  "days_to_expire env days =
     (case days of
        None \<Rightarrow> Fin 3
      | Some s \<Rightarrow> if s \<noteq> [] then parseInt10 (big_int env) s else Fin 3)"

definition expiry_limit :: "recipe_env \<Rightarrow> string option \<Rightarrow> int option" where
  "expiry_limit env days =
     Date_setDate (set_day env) (clock_limit env)
       (js_add (Fin (of_int (getDate env (clock_today env)))) (days_to_expire env days))"

definition recipe_handler :: "recipe_env \<Rightarrow> string option \<Rightarrow> db \<Rightarrow> recipe_result" where
  "recipe_handler env days d =
     (let today = clock_today env
      in case expiry_limit env days of
           None \<Rightarrow>
             \<lparr>recipe_response = RecipeError, recipe_console = [RecipeFailed],
              store_queries = [], hf_prompts = []\<rparr>
         | Some limit \<Rightarrow>
             if find_fails env
             then \<lparr>recipe_response = RecipeError, recipe_console = [RecipeFailed],
                   store_queries = [FindExpiring today limit], hf_prompts = []\<rparr>
             else
               let expiringItems = queryExpiringBetween today limit (fridge_items d);
                   itemsList = map name expiringItems
               in if length itemsList = 0
                  then
                    if aggregate_fails env
                    then \<lparr>recipe_response = RecipeError, recipe_console = [RecipeFailed],
                          store_queries = [FindExpiring today limit, Sample 3], hf_prompts = []\<rparr>
                    else
                      let randomItems = sample env 3 (fridge_items d)
                      in recipe_for_names env [FindExpiring today limit, Sample 3]
                           (map name randomItems)
                  else recipe_for_names env [FindExpiring today limit] itemsList)"

text \<open>
  What \<open>$sample\<close> of size 3 may return from a collection: at most 3 of its documents,
  and none only when the collection is empty.
\<close>

definition sample_ok :: "(nat \<Rightarrow> stored_item list \<Rightarrow> stored_item list) \<Rightarrow> stored_item list \<Rightarrow> bool" where
  "sample_ok smp docs =
     (set (smp 3 docs) \<subseteq> set docs \<and> length (smp 3 docs) \<le> 3 \<and> (smp 3 docs = [] \<longrightarrow> docs = []))"

section \<open>Items as the specification sees them\<close>

text \<open>
  In the specification an item is a name, an optional date and the attributes passed
  through. A detected item has no date when its \<open>expiration_date\<close> is missing or falsy,
  a stored one when the field is null.
\<close>

definition spec_item_of_detected :: "(jsval \<Rightarrow> int) \<Rightarrow> detected_item \<Rightarrow> jsval \<times> int option \<times> (string \<times> jsval) list" where
  "spec_item_of_detected dms item =
     (name item,
      (if truthy (expiration_date item) then Some (dms (expiration_date item)) else None),
      others item)"

definition spec_item_of_stored :: "stored_item \<Rightarrow> jsval \<times> int option \<times> (string \<times> jsval) list" where
  "spec_item_of_stored doc =
     (name doc, (case expiration_date doc of BNull \<Rightarrow> None | BDate t \<Rightarrow> Some t), others doc)"

text \<open>Concrete requests and stores, used to run the handlers.\<close>

definition milk :: detected_item where
  "milk = \<lparr>name = JStr ''milk'', expiration_date = JStr ''2025-01-10'', others = []\<rparr>"

definition eggs :: detected_item where
  "eggs = \<lparr>name = JStr ''eggs'', expiration_date = JUndefined, others = [(''confidence'', JNum (Fin 1))]\<rparr>"

definition old_db :: db where
  "old_db =
     \<lparr>fridge_items =
        [\<lparr>name = JStr ''butter'', expiration_date = BDate 5, others = [], last_seen = 1, doc_id = 0\<rparr>],
      events = [], next_id = 1, log_file = []\<rparr>"

definition good_body :: pi_data where
  "good_body =
     \<lparr>gas_level_percent = JNum (Fin 80), door_status = JStr ''closed'',
      image_base64 = JStr ''aGVsbG8='', event = JStr ''door''\<rparr>"

definition good_env :: "detected_item list \<Rightarrow> ingest_env" where
  "good_env items =
     \<lparr>server_clock = 1000,
      vision = \<lparr>uncaught_error = False, stdin_write_fails = False, exit_code = 0,
                scriptError = [],
                scriptOutput = Some \<lparr>vj_error = JUndefined, vj_detected_items = Some items\<rparr>\<rparr>,
      num_of = (\<lambda>_. NaN),
      date_ms = (\<lambda>_. 777),
      appendFile_fails = False,
      deleteMany_fails = False,
      insertMany_outcome = InsertedAll,
      insertOne_outcome = InsertOneOk\<rparr>"

definition broken_pipe_env :: ingest_env where
  "broken_pipe_env =
     (good_env [milk])
       \<lparr>vision := \<lparr>uncaught_error = True, stdin_write_fails = False, exit_code = 1,
                   scriptError = ''Traceback'', scriptOutput = None\<rparr>\<rparr>"


definition recipe_env0 :: recipe_env where
  "recipe_env0 =
     \<lparr>clock_today = 1000, clock_limit = 1000,
      getDate = (\<lambda>t. 1),
      set_day = (\<lambda>t d. Some (t + (floor d - 1) * 86400000)),
      big_int = (\<lambda>s. PosInf),
      find_fails = False, aggregate_fails = False,
      sample = take,
      str_of = (\<lambda>v. []),
      textGeneration = (\<lambda>p. HFResponse (JStr two_blocks))\<rparr>"

definition three_docs :: "stored_item list" where
  "three_docs =
     [\<lparr>name = JStr ''butter'', expiration_date = BNull, others = [], last_seen = 1, doc_id = 0\<rparr>,
      \<lparr>name = JStr ''milk'', expiration_date = BDate 2000, others = [], last_seen = 1, doc_id = 1\<rparr>,
      \<lparr>name = JStr ''ham'', expiration_date = BDate 2001, others = [], last_seen = 1, doc_id = 2\<rparr>]"

section \<open>Properties of the sensor logic\<close>




section \<open>Properties of the recipe parser\<close>



lemma label_match_pos:
  "label_match lbl s =
     map_option (\<lambda>i. takeWhile (\<lambda>x. \<not> line_terminator x)
                        (dropWhile js_space (drop (i + length lbl) s)))
       (label_pos lbl s)"
  by (induction s) (auto simp: option.map_comp comp_def)

lemma takeWhile_dropWhile_same: "takeWhile P (dropWhile P xs) = []"
  by (induction xs) auto

lemma js_trim_dropWhile: "js_trim (dropWhile js_space s) = js_trim s"
  by (simp add: js_trim_def)

lemma capture_nonblank:
  assumes "\<not> blank (takeWhile (\<lambda>x. \<not> line_terminator x) r)"
  shows "js_trim (takeWhile (\<lambda>x. \<not> line_terminator x) (dropWhile js_space r)) =
         js_trim (takeWhile (\<lambda>x. \<not> line_terminator x) r)"
proof -
  let ?N = "\<lambda>x. \<not> line_terminator x"
  let ?t = "takeWhile ?N r"
  let ?u = "dropWhile ?N r"
  from assms obtain x where x: "x \<in> set ?t" "\<not> js_space x"
    by (auto simp: blank_def dropWhile_eq_Nil_conv)
  have "dropWhile js_space r = dropWhile js_space (?t @ ?u)" by simp
  also have "\<dots> = dropWhile js_space ?t @ ?u"
    using x by (rule dropWhile_append1)
  finally have d: "dropWhile js_space r = dropWhile js_space ?t @ ?u" .
  have all: "\<forall>y \<in> set (dropWhile js_space ?t). ?N y"
    using set_dropWhileD set_takeWhileD by metis
  have "takeWhile ?N (dropWhile js_space ?t @ ?u) = dropWhile js_space ?t @ takeWhile ?N ?u"
    using all by (simp add: takeWhile_append2)
  then have "takeWhile ?N (dropWhile js_space r) = dropWhile js_space ?t"
    using d by (simp add: takeWhile_dropWhile_same)
  then show ?thesis by (simp add: js_trim_dropWhile)
qed

lemma split_from_nonempty: "split_from sep acc s \<noteq> []"
  by (induction sep acc s rule: split_from.induct) auto

lemma label_match_Some_iff: "(\<exists>t. label_match lbl b = Some t) \<longleftrightarrow> (\<exists>t. spec_labelled_text lbl b = Some t)"
  by (auto simp: label_match_pos spec_labelled_text_def)

lemma parse_block_both_labels:
  assumes "spec_labelled_text ''Title:'' b \<noteq> None" "spec_labelled_text ''Description:'' b \<noteq> None"
  shows "length (parse_block b) = 1"
  using assms by (auto simp: parse_block_def label_match_pos spec_labelled_text_def split: option.splits)

lemma label_match_labelled:
  assumes "has_labelled_text lbl b"
  shows "\<exists>t. label_match lbl b = Some t \<and> js_trim t = js_trim (the (spec_labelled_text lbl b))"
proof -
  from assms obtain i where i: "label_pos lbl b = Some i"
    by (auto simp: has_labelled_text_def spec_labelled_text_def split: option.splits)
  with assms have nb: "\<not> blank (takeWhile (\<lambda>x. \<not> line_terminator x) (drop (i + length lbl) b))"
    by (simp add: has_labelled_text_def spec_labelled_text_def)
  show ?thesis
    using i capture_nonblank [OF nb] by (simp add: label_match_pos spec_labelled_text_def)
qed

lemma parse_block_labelled:
  assumes "has_labelled_text ''Title:'' b" "has_labelled_text ''Description:'' b"
  shows "parse_block b = [spec_recipe b]"
proof -
  from label_match_labelled [OF assms(1)] obtain t where
    t: "label_match ''Title:'' b = Some t" "js_trim t = js_trim (the (spec_labelled_text ''Title:'' b))"
    by blast
  from label_match_labelled [OF assms(2)] obtain d where
    d: "label_match ''Description:'' b = Some d"
       "js_trim d = js_trim (the (spec_labelled_text ''Description:'' b))"
    by blast
  show ?thesis unfolding parse_block_def spec_recipe_def using t d by simp
qed

lemma concat_map_singleton: "(\<forall>b \<in> set bs. f b = [g b]) \<Longrightarrow> concat (map f bs) = map g bs"
  by (induction bs) auto

lemma length_concat_ones: "(\<forall>b \<in> set bs. length (f b) = 1) \<Longrightarrow> length (concat (map f bs)) = length bs"
  by (induction bs) auto

lemma js_split_nonempty: "js_split sep s \<noteq> []"
  by (simp add: js_split_def split_from_nonempty)

lemma parse_generated_count:
  assumes "\<forall>b \<in> set (js_split ''---'' g).
             spec_labelled_text ''Title:'' b \<noteq> None \<and> spec_labelled_text ''Description:'' b \<noteq> None"
  shows "length (parse_generated g) = length (js_split ''---'' g)"
proof -
  have l: "length (concat (map parse_block (js_split ''---'' g))) = length (js_split ''---'' g)"
    using assms by (intro length_concat_ones) (simp add: parse_block_both_labels)
  have "length (js_split ''---'' g) \<noteq> 0" using js_split_nonempty by simp
  with l have "\<not> (length (concat (map parse_block (js_split ''---'' g))) = 0 \<and> length g > 0)"
    by (simp only: not_False_eq_True simp_thms)
  then have "parse_generated g = concat (map parse_block (js_split ''---'' g))"
    unfolding parse_generated_def Let_def by (simp only: if_False)
  with l show ?thesis by (simp only:)
qed

lemma parse_generated_labelled:
  assumes "\<forall>b \<in> set (js_split ''---'' g).
             has_labelled_text ''Title:'' b \<and> has_labelled_text ''Description:'' b"
  shows "parse_generated g = map spec_recipe (js_split ''---'' g)"
proof -
  have l: "concat (map parse_block (js_split ''---'' g)) = map spec_recipe (js_split ''---'' g)"
    using assms by (intro concat_map_singleton) (simp add: parse_block_labelled)
  moreover have "map spec_recipe (js_split ''---'' g) \<noteq> []" using js_split_nonempty by simp
  ultimately show ?thesis by (simp add: parse_generated_def Let_def)
qed


text \<open>
  C7 (as amended). The generated text is split at "---". When every block contains a
  case-insensitive "Title:" label and a case-insensitive "Description:" label, exactly one
  recipe per block is returned. When moreover the rest of the line after the first
  occurrence of each label is not blank, the title and the description of each recipe are
  those texts with the surrounding white space trimmed.
\<close>

theorem getRecipeFromHF_labelled_blocks:
  assumes "objects \<noteq> []"
    and "hf (prompt tostr objects) = HFResponse (JStr text)"
    and "\<forall>b \<in> set (js_split ''---'' (generated_text_of (prompt tostr objects) text)).
           spec_labelled_text ''Title:'' b \<noteq> None \<and> spec_labelled_text ''Description:'' b \<noteq> None"
  shows "length (fst (getRecipeFromHF tostr hf objects)) =
           length (js_split ''---'' (generated_text_of (prompt tostr objects) text))
         \<and> ((\<forall>b \<in> set (js_split ''---'' (generated_text_of (prompt tostr objects) text)).
                has_labelled_text ''Title:'' b \<and> has_labelled_text ''Description:'' b)
            \<longrightarrow> fst (getRecipeFromHF tostr hf objects) =
                  map spec_recipe (js_split ''---'' (generated_text_of (prompt tostr objects) text)))"
  using assms
  by (simp add: getRecipeFromHF_def parse_generated_count parse_generated_labelled)

lemma two_blocks_split:
  "js_split ''---'' (generated_text_of (prompt (\<lambda>_. []) [JStr ''milk'']) two_blocks) =
     [''Title: Milk Shake '' @ [CHR 0x0A] @ ''description:  Blend it.'' @ [CHR 0x0A],
      [CHR 0x0A] @ ''TITLE:Toast'' @ [CHR 0x0A] @ ''Description: Grill the bread.'']"
  by (simp add: two_blocks_def js_split_def js_trim_def js_space_def generated_text_of_def
      prompt_def)

theorem getRecipeFromHF_labelled_blocks_witness:
  "fst (getRecipeFromHF (\<lambda>_. []) (\<lambda>_. HFResponse (JStr two_blocks)) [JStr ''milk'']) =
     [\<lparr>title = ''Milk Shake'', description = ''Blend it.''\<rparr>,
      \<lparr>title = ''Toast'', description = ''Grill the bread.''\<rparr>]"
proof -
  let ?bs = "js_split ''---'' (generated_text_of (prompt (\<lambda>_. []) [JStr ''milk'']) two_blocks)"
  have h1: "[JStr ''milk''] \<noteq> []" by simp
  have h2: "(\<lambda>_. HFResponse (JStr two_blocks)) (prompt (\<lambda>_. []) [JStr ''milk'']) = HFResponse (JStr two_blocks)"
    by simp
  have h3: "\<forall>b \<in> set ?bs. spec_labelled_text ''Title:'' b \<noteq> None \<and> spec_labelled_text ''Description:'' b \<noteq> None"
    unfolding two_blocks_split by (simp add: spec_labelled_text_def upper_ascii_def)
  have h4: "\<forall>b \<in> set ?bs. has_labelled_text ''Title:'' b \<and> has_labelled_text ''Description:'' b"
    unfolding two_blocks_split
    by (simp add: spec_labelled_text_def has_labelled_text_def blank_def upper_ascii_def js_space_def line_terminator_def)
  have "fst (getRecipeFromHF (\<lambda>_. []) (\<lambda>_. HFResponse (JStr two_blocks)) [JStr ''milk'']) = map spec_recipe ?bs"
    using getRecipeFromHF_labelled_blocks [OF h1 h2 h3] h4 by blast
  also have "\<dots> = [\<lparr>title = ''Milk Shake'', description = ''Blend it.''\<rparr>,
      \<lparr>title = ''Toast'', description = ''Grill the bread.''\<rparr>]"
    unfolding two_blocks_split
    by (simp add: spec_recipe_def spec_labelled_text_def upper_ascii_def js_space_def line_terminator_def js_trim_def)
  finally show ?thesis .
qed

text \<open>
  The claim as written promises the labelled texts for every block that has the two
  labelled lines. In the block below the line of the title label is empty: the white space
  skipped after the label includes the line break, and the title returned is the whole
  description line.
\<close>

theorem getRecipeFromHF_blank_title_counterexample:
  "spec_labelled_text ''Title:'' (''Title:'' @ [CHR 0x0A] @ ''Description: x'') = Some []
   \<and> spec_labelled_text ''Description:'' (''Title:'' @ [CHR 0x0A] @ ''Description: x'') = Some '' x''
   \<and> fst (getRecipeFromHF (\<lambda>_. []) (\<lambda>_. HFResponse (JStr (''Title:'' @ [CHR 0x0A] @ ''Description: x'')))
            [JStr ''milk'']) =
       [\<lparr>title = ''Description: x'', description = ''x''\<rparr>]"
  by (simp add: getRecipeFromHF_def parse_generated_def parse_block_def js_split_def
      js_trim_def js_space_def line_terminator_def upper_ascii_def generated_text_of_def
      prompt_def spec_labelled_text_def)


text \<open>
  C8 (as amended). The generated text is the response text with the first occurrence of
  the prompt removed and then trimmed. Whenever it is not empty and the blocks give no
  recipe, exactly one recipe is returned: its title flags the parsing failure and its
  description is the generated text.
\<close>

theorem getRecipeFromHF_salvage:
  assumes "objects \<noteq> []"
    and "hf (prompt tostr objects) = HFResponse (JStr text)"
    and "generated_text_of (prompt tostr objects) text \<noteq> []"
    and "concat (map parse_block (js_split ''---'' (generated_text_of (prompt tostr objects) text))) = []"
  shows "fst (getRecipeFromHF tostr hf objects) =
           [\<lparr>title = ''Generated Recipes (Parsing Failed)'',
             description = generated_text_of (prompt tostr objects) text\<rparr>]"
  using assms by (simp add: getRecipeFromHF_def parse_generated_def)

theorem getRecipeFromHF_salvage_witness:
  "fst (getRecipeFromHF (\<lambda>_. []) (\<lambda>_. HFResponse (JStr ''  no idea  '')) [JStr ''milk'']) =
     [\<lparr>title = ''Generated Recipes (Parsing Failed)'', description = ''no idea''\<rparr>]"
proof -
  have g: "generated_text_of (prompt (\<lambda>_. []) [JStr ''milk'']) ''  no idea  '' = ''no idea''"
    by (simp add: generated_text_of_def prompt_def js_trim_def js_space_def)
  have h1: "[JStr ''milk''] \<noteq> []" by simp
  have h2: "(\<lambda>_. HFResponse (JStr ''  no idea  '')) (prompt (\<lambda>_. []) [JStr ''milk'']) =
              HFResponse (JStr ''  no idea  '')"
    by simp
  have h3: "generated_text_of (prompt (\<lambda>_. []) [JStr ''milk'']) ''  no idea  '' \<noteq> []"
    unfolding g by simp
  have h4: "concat (map parse_block
              (js_split ''---'' (generated_text_of (prompt (\<lambda>_. []) [JStr ''milk'']) ''  no idea  ''))) = []"
    unfolding g by (simp add: parse_block_def js_split_def js_trim_def js_space_def upper_ascii_def)
  show ?thesis
    using getRecipeFromHF_salvage [OF h1 h2 h3 h4] unfolding g .
qed

text \<open>
  The claim as written speaks of a non-empty response and of the raw response text. A
  service that answers with the prompt itself and nothing after it gives a response that
  is not empty and from which no recipe is parsed, yet the list returned is empty.
\<close>

theorem getRecipeFromHF_echo_response_counterexample:
  "prompt (\<lambda>_. []) [JStr ''milk''] \<noteq> []
   \<and> concat (map parse_block
        (js_split ''---'' (generated_text_of (prompt (\<lambda>_. []) [JStr ''milk''])
                             (prompt (\<lambda>_. []) [JStr ''milk''])))) = []
   \<and> fst (getRecipeFromHF (\<lambda>_. []) (\<lambda>p. HFResponse (JStr p)) [JStr ''milk'']) = []"
proof -
  have g: "generated_text_of (prompt (\<lambda>_. []) [JStr ''milk'']) (prompt (\<lambda>_. []) [JStr ''milk'']) = []"
    by (simp add: generated_text_of_def prompt_def js_trim_def)
  have p: "prompt (\<lambda>_. []) [JStr ''milk''] \<noteq> []"
    by (simp add: prompt_def)
  have b: "concat (map parse_block (js_split ''---'' [])) = []"
    by (simp add: parse_block_def js_split_def js_trim_def)
  have r: "fst (getRecipeFromHF (\<lambda>_. []) (\<lambda>p. HFResponse (JStr p)) [JStr ''milk'']) = []"
    using b by (simp add: getRecipeFromHF_def parse_generated_def g)
  from g p b r show ?thesis by simp
qed

text \<open>
  C9. For a non-empty name list, when the text-generation call rejects, the function still
  returns: the result is the single recipe "Recipe Generation Failed" with the description
  that points to the server logs, and the error is written to the console. The service
  was called once, with the prompt.
\<close>

theorem getRecipeFromHF_service_failure:
  assumes "objects \<noteq> []"
    and "hf (prompt tostr objects) = HFRejected msg"
  shows "getRecipeFromHF tostr hf objects =
           ([\<lparr>title = ''Recipe Generation Failed'',
              description = ''Could not generate recipe. Check server logs.''\<rparr>],
            [HFTextGenerationError (HFError msg)], [prompt tostr objects])"
  using assms by (simp add: getRecipeFromHF_def failed_recipes_def)

theorem getRecipeFromHF_service_failure_witness:
  "getRecipeFromHF (\<lambda>_. []) (\<lambda>_. HFRejected ''fetch failed'') [JStr ''milk'', JStr ''eggs''] =
           ([\<lparr>title = ''Recipe Generation Failed'',
              description = ''Could not generate recipe. Check server logs.''\<rparr>],
            [HFTextGenerationError (HFError ''fetch failed'')],
            [prompt (\<lambda>_. []) [JStr ''milk'', JStr ''eggs'']])"
proof -
  have h1: "[JStr ''milk'', JStr ''eggs''] \<noteq> []" by simp
  have h2: "(\<lambda>_. HFRejected ''fetch failed'') (prompt (\<lambda>_. []) [JStr ''milk'', JStr ''eggs'']) =
              HFRejected ''fetch failed''"
    by simp
  show ?thesis using getRecipeFromHF_service_failure [OF h1 h2] .
qed



section \<open>Properties of the ingest route\<close>

lemma map_fst_zip_upt: "map (\<lambda>p. g (fst p)) (zip xs [0 ..< length xs]) = map g xs"
proof -
  have "map (g \<circ> fst) (zip xs [0 ..< length xs]) = map g (map fst (zip xs [0 ..< length xs]))"
    by (simp only: map_map)
  also have "map fst (zip xs [0 ..< length xs]) = xs"
    by simp
  finally show ?thesis by (simp only: comp_def)
qed

lemma itemsToInsert_views:
  "map spec_item_of_stored (itemsToInsert dms ts items n) = map (spec_item_of_detected dms) items"
proof -
  have "map spec_item_of_stored (itemsToInsert dms ts items n) =
        map (\<lambda>p. spec_item_of_detected dms (fst p)) (zip items [0 ..< length items])"
    by (simp add: itemsToInsert_def spec_item_of_stored_def spec_item_of_detected_def
        case_prod_unfold)
  then show ?thesis by (simp only: map_fst_zip_upt)
qed

lemma itemsToInsert_length: "length (itemsToInsert dms ts items n) = length items"
  by (simp add: itemsToInsert_def)

lemma itemsToInsert_fresh:
  "x \<in> set (itemsToInsert dms ts items n) \<Longrightarrow> last_seen x = ts \<and> n \<le> doc_id x"
  by (auto simp: itemsToInsert_def dest!: set_zip_leftD set_zip_rightD in_set_zipE)

lemma update_fridge_ok:
  assumes "\<not> deleteMany_fails env" "insertMany_outcome env = InsertedAll"
  shows "fridge_items (fst (update_fridge env items d)) =
           itemsToInsert (date_ms env) (server_clock env) items (next_id d)"
  using assms by (simp add: update_fridge_def Let_def itemsToInsert_def)

lemma save_event_fridge: "fridge_items (fst (save_event env doc d)) = fridge_items d"
  by (simp add: save_event_def split: insert_one_outcome.splits)

lemma pi_data_handler_vision_ok:
  assumes "truthy (image_base64 data)" "invokeLocalVision (vision env) = Resolved vr"
  shows "fridge_items (db_after (pi_data_handler env (Some data) d)) =
           fridge_items (fst (update_fridge env
              (case vj_detected_items vr of None \<Rightarrow> [] | Some xs \<Rightarrow> xs) d))"
proof -
  have u: "\<And>e i a b. fridge_items (fst (update_fridge e i (a\<lparr>log_file := b\<rparr>))) =
             fridge_items (fst (update_fridge e i a))"
    by (simp add: update_fridge_def Let_def split: insert_many_outcome.splits)
  show ?thesis
    using assms
    by (simp add: pi_data_handler_def Let_def case_prod_unfold save_event_fridge u)
qed

text \<open>
  C1. Take an ingest request with an image for which the vision script succeeds with the
  list \<open>items\<close> and both database calls of the fridge-state update succeed. Whatever
  the store held before, listing the fridge contents afterwards succeeds and returns one
  document per item: as items of the specification (name, optional date, other attributes)
  the documents listed are exactly \<open>items\<close>, as a multiset; each carries the time of this
  cycle as \<open>last_seen\<close>; for the empty list the listing is empty; and no document listed
  is one of an earlier cycle.
\<close>

theorem replace_then_list_all:
  assumes "truthy (image_base64 data)"
    and "invokeLocalVision (vision env) = Resolved vr"
    and "items = (case vj_detected_items vr of None \<Rightarrow> [] | Some xs \<Rightarrow> xs)"
    and "\<not> deleteMany_fails env"
    and "insertMany_outcome env = InsertedAll"
  shows "\<exists>listing.
           fridge_contents_handler False (db_after (pi_data_handler env (Some data) d)) =
             ContentsSuccess (length items) listing
           \<and> mset (map spec_item_of_stored listing) =
               mset (map (spec_item_of_detected (date_ms env)) items)
           \<and> (\<forall>x \<in> set listing. last_seen x = server_clock env)
           \<and> (items = [] \<longrightarrow> listing = [])
           \<and> ((\<forall>p \<in> set (fridge_items d). doc_id p < next_id d) \<longrightarrow>
                (\<forall>x \<in> set listing. \<forall>p \<in> set (fridge_items d). doc_id x \<noteq> doc_id p))"
proof -
  let ?docs = "itemsToInsert (date_ms env) (server_clock env) items (next_id d)"
  have f: "fridge_items (db_after (pi_data_handler env (Some data) d)) = ?docs"
    using assms pi_data_handler_vision_ok [OF assms(1,2)] update_fridge_ok [OF assms(4,5)]
    by simp
  have 1: "fridge_contents_handler False (db_after (pi_data_handler env (Some data) d)) =
             ContentsSuccess (length items) ?docs"
    by (simp add: fridge_contents_handler_def f itemsToInsert_length)
  have 2: "mset (map spec_item_of_stored ?docs) =
             mset (map (spec_item_of_detected (date_ms env)) items)"
    by (simp only: itemsToInsert_views)
  have 3: "\<forall>x \<in> set ?docs. last_seen x = server_clock env"
    using itemsToInsert_fresh by blast
  have 4: "items = [] \<longrightarrow> ?docs = []"
    by (simp add: itemsToInsert_def)
  have 5: "(\<forall>p \<in> set (fridge_items d). doc_id p < next_id d) \<longrightarrow>
             (\<forall>x \<in> set ?docs. \<forall>p \<in> set (fridge_items d). doc_id x \<noteq> doc_id p)"
  proof (intro impI ballI)
    fix x p
    assume a: "\<forall>p \<in> set (fridge_items d). doc_id p < next_id d"
      and x: "x \<in> set ?docs" and p: "p \<in> set (fridge_items d)"
    from x have "next_id d \<le> doc_id x" using itemsToInsert_fresh by blast
    moreover from a p have "doc_id p < next_id d" by blast
    ultimately show "doc_id x \<noteq> doc_id p" by simp
  qed
  from 1 2 3 4 5 show ?thesis by blast
qed

theorem replace_then_list_all_witness:
  "(\<exists>listing.
      fridge_contents_handler False
        (db_after (pi_data_handler (good_env [milk, eggs]) (Some good_body) old_db)) =
        ContentsSuccess 2 listing
      \<and> mset (map spec_item_of_stored listing) =
          {#(JStr ''milk'', Some 777, []), (JStr ''eggs'', None, [(''confidence'', JNum (Fin 1))])#}
      \<and> (\<forall>x \<in> set listing. last_seen x = 1000 \<and> doc_id x \<noteq> 0))
   \<and> fridge_contents_handler False
        (db_after (pi_data_handler (good_env []) (Some good_body) old_db)) = ContentsSuccess 0 []"
proof -
  have h1: "truthy (image_base64 good_body)"
    by (simp add: good_body_def)
  have h2: "\<And>xs. invokeLocalVision (vision (good_env xs)) =
              Resolved \<lparr>vj_error = JUndefined, vj_detected_items = Some xs\<rparr>"
    by (simp add: good_env_def invokeLocalVision_def)
  have h3: "\<And>xs. xs = (case vj_detected_items \<lparr>vj_error = JUndefined, vj_detected_items = Some xs\<rparr>
                          of None \<Rightarrow> [] | Some ys \<Rightarrow> ys)"
    by simp
  have h4: "\<And>xs. \<not> deleteMany_fails (good_env xs)"
    by (simp add: good_env_def)
  have h5: "\<And>xs. insertMany_outcome (good_env xs) = InsertedAll"
    by (simp add: good_env_def)
  have old: "\<forall>p \<in> set (fridge_items old_db). doc_id p < next_id old_db"
    by (simp add: old_db_def)
  from replace_then_list_all [OF h1 h2 h3 h4 h5, of "[milk, eggs]" old_db] old
  obtain listing where l:
    "fridge_contents_handler False
        (db_after (pi_data_handler (good_env [milk, eggs]) (Some good_body) old_db)) =
        ContentsSuccess (length [milk, eggs]) listing"
    "mset (map spec_item_of_stored listing) =
       mset (map (spec_item_of_detected (date_ms (good_env [milk, eggs]))) [milk, eggs])"
    "\<forall>x \<in> set listing. last_seen x = server_clock (good_env [milk, eggs])"
    "\<forall>x \<in> set listing. \<forall>p \<in> set (fridge_items old_db). doc_id x \<noteq> doc_id p"
    by blast
  have a: "\<exists>listing.
      fridge_contents_handler False
        (db_after (pi_data_handler (good_env [milk, eggs]) (Some good_body) old_db)) =
        ContentsSuccess 2 listing
      \<and> mset (map spec_item_of_stored listing) =
          {#(JStr ''milk'', Some 777, []), (JStr ''eggs'', None, [(''confidence'', JNum (Fin 1))])#}
      \<and> (\<forall>x \<in> set listing. last_seen x = 1000 \<and> doc_id x \<noteq> 0)"
    using l
    by (intro exI [of _ listing])
       (simp add: good_env_def old_db_def spec_item_of_detected_def milk_def eggs_def)
  from replace_then_list_all [OF h1 h2 h3 h4 h5, of "[]" old_db]
  have b: "fridge_contents_handler False
        (db_after (pi_data_handler (good_env []) (Some good_body) old_db)) = ContentsSuccess 0 []"
    by auto
  from a b show ?thesis by blast
qed

lemma invokeLocalVision_failures:
  assumes "\<not> uncaught_error run"
    and "stdin_write_fails run \<or> exit_code run \<noteq> 0 \<or> scriptOutput run = None
           \<or> (\<exists>r. scriptOutput run = Some r \<and> truthy (vj_error r))"
  shows "\<exists>err. invokeLocalVision run = Rejected err"
  using assms by (auto simp: invokeLocalVision_def)

lemma pi_data_handler_no_image:
  assumes "body = None \<or> (\<exists>data. body = Some data \<and> \<not> truthy (image_base64 data))"
  shows "response (pi_data_handler env body d) = Some NoImage"
    and "ingest_status NoImage = 400"
    and "db_after (pi_data_handler env body d) = d"
  using assms by (auto simp: pi_data_handler_def)

lemma pi_data_handler_vision_rejected:
  assumes "truthy (image_base64 data)"
    and "invokeLocalVision (vision env) = Rejected err"
  shows "response (pi_data_handler env (Some data) d) = Some (ProcessingError err)"
    and "ingest_status (ProcessingError err) = 500"
    and "fridge_items (db_after (pi_data_handler env (Some data) d)) = fridge_items d"
    and "events (db_after (pi_data_handler env (Some data) d)) = events d"
    and "next_id (db_after (pi_data_handler env (Some data) d)) = next_id d"
    and "\<not> unhandled_rejection (pi_data_handler env (Some data) d)"
  using assms by (simp_all add: pi_data_handler_def Let_def)

lemma pi_data_handler_vision_crashed:
  assumes "truthy (image_base64 data)"
    and "uncaught_error (vision env)"
  shows "response (pi_data_handler env (Some data) d) = None"
    and "fridge_items (db_after (pi_data_handler env (Some data) d)) = fridge_items d"
    and "events (db_after (pi_data_handler env (Some data) d)) = events d"
  using assms by (simp_all add: pi_data_handler_def Let_def invokeLocalVision_def)

lemma pi_data_handler_failure_writes_nothing:
  assumes "body = None \<or> (\<exists>data. body = Some data \<and> \<not> truthy (image_base64 data))
           \<or> (\<forall>vr. invokeLocalVision (vision env) \<noteq> Resolved vr)"
  shows "fridge_items (db_after (pi_data_handler env body d)) = fridge_items d
         \<and> events (db_after (pi_data_handler env body d)) = events d"
proof (cases body)
  case None
  then show ?thesis by (simp add: pi_data_handler_def)
next
  case (Some data)
  show ?thesis
  proof (cases "truthy (image_base64 data)")
    case False
    with Some show ?thesis by (simp add: pi_data_handler_def)
  next
    case True
    with Some assms have "\<forall>vr. invokeLocalVision (vision env) \<noteq> Resolved vr" by simp
    with Some True show ?thesis
      by (cases "invokeLocalVision (vision env)") (simp_all add: pi_data_handler_def Let_def)
  qed
qed

text \<open>
  C4. The request below has an image; the vision script exits with code 1 without reading
  its input, and the pipe breaks while the body is written. The claim promises a
  server-error response for a non-zero exit. The stream's error has no listener: the
  exception is uncaught, the process exits and no response is sent. The collections of
  fridge items and of events are as before, as the claim says.
\<close>

theorem vision_pipe_error_no_response:
  "truthy (image_base64 good_body)
   \<and> exit_code (vision broken_pipe_env) \<noteq> 0
   \<and> response (pi_data_handler broken_pipe_env (Some good_body) old_db) = None
   \<and> fridge_items (db_after (pi_data_handler broken_pipe_env (Some good_body) old_db)) =
       fridge_items old_db
   \<and> events (db_after (pi_data_handler broken_pipe_env (Some good_body) old_db)) = events old_db"
  by (simp add: pi_data_handler_def Let_def invokeLocalVision_def broken_pipe_env_def
      good_env_def good_body_def)

lemma pi_data_handler_responds:
  assumes "truthy (image_base64 data)" "invokeLocalVision (vision env) = Resolved vr"
  shows "response (pi_data_handler env (Some data) d) =
           Some (IngestSuccess (event data)
             \<lparr>is_alert = is_alert (runSensorLogic (num_of env) data),
              alert_reason = alert_reason (runSensorLogic (num_of env) data),
              detected_items = (case vj_detected_items vr of None \<Rightarrow> [] | Some xs \<Rightarrow> xs)\<rparr>)"
  using assms by (simp add: pi_data_handler_def Let_def case_prod_unfold)

lemma pi_data_handler_fridge_failure_logged:
  assumes "truthy (image_base64 data)" "invokeLocalVision (vision env) = Resolved vr"
    and "deleteMany_fails env"
  shows "FridgeUpdateFailed \<in> set (console (pi_data_handler env (Some data) d))"
  using assms by (simp add: pi_data_handler_def Let_def case_prod_unfold update_fridge_def)

lemma pi_data_handler_event_throw_logged:
  assumes "truthy (image_base64 data)" "invokeLocalVision (vision env) = Resolved vr"
    and "insertOne_outcome env = InsertOneThrows"
  shows "EventInsertError \<in> set (console (pi_data_handler env (Some data) d))"
  using assms by (simp add: pi_data_handler_def Let_def case_prod_unfold save_event_def)

text \<open>
  C5. The request below has an image, the vision script succeeds and the fridge state is
  written, but the promise of the event insert rejects. The response is the success
  response with the computed result, as the claim says. The rejection, however, is not
  recovered: nothing is written to the console for it, the promise is left rejected with
  no handler, and the event is not stored.
\<close>

theorem event_insert_rejection_unhandled:
  "response (pi_data_handler ((good_env [milk])\<lparr>insertOne_outcome := InsertOneRejects\<rparr>)
              (Some good_body) old_db) =
     Some (IngestSuccess (JStr ''door'')
       \<lparr>is_alert = True, alert_reason = ''Sensor Alert: High gas level detected!'',
        detected_items = [milk]\<rparr>)
   \<and> console (pi_data_handler ((good_env [milk])\<lparr>insertOne_outcome := InsertOneRejects\<rparr>)
              (Some good_body) old_db) = []
   \<and> unhandled_rejection (pi_data_handler ((good_env [milk])\<lparr>insertOne_outcome := InsertOneRejects\<rparr>)
              (Some good_body) old_db)
   \<and> events (db_after (pi_data_handler ((good_env [milk])\<lparr>insertOne_outcome := InsertOneRejects\<rparr>)
              (Some good_body) old_db)) = []"
  by (simp add: pi_data_handler_def Let_def good_env_def good_body_def old_db_def
      invokeLocalVision_def runSensorLogic_def update_fridge_def save_event_def)



section \<open>Properties of the recipe route\<close>

lemma map_filter_fst_zip_upt:
  "map (\<lambda>p. g (fst p)) (filter (\<lambda>p. Q (fst p)) (zip xs [0 ..< length xs])) = map g (filter Q xs)"
proof -
  let ?zs = "zip xs [0 ..< length xs]"
  have "map g (filter Q (map fst ?zs)) = map g (map fst (filter (Q \<circ> fst) ?zs))"
    by (simp only: filter_map)
  also have "\<dots> = map (g \<circ> fst) (filter (Q \<circ> fst) ?zs)"
    by (simp only: map_map)
  finally have "map (g \<circ> fst) (filter (Q \<circ> fst) ?zs) = map g (filter Q (map fst ?zs))"
    by (rule sym)
  moreover have "map fst ?zs = xs" by simp
  ultimately show ?thesis by (simp only: comp_def)
qed

lemma query_itemsToInsert:
  "map spec_item_of_stored (queryExpiringBetween s e (itemsToInsert dms ts items n)) =
     map (spec_item_of_detected dms)
       (filter (\<lambda>i. truthy (expiration_date i) \<and> s \<le> dms (expiration_date i)
                     \<and> dms (expiration_date i) \<le> e) items)"
proof -
  let ?f = "\<lambda>(item, i).
            \<lparr>name = name item,
             expiration_date =
               (if truthy (expiration_date item) then BDate (dms (expiration_date item)) else BNull),
             others = others item,
             last_seen = ts,
             doc_id = n + i\<rparr>"
  let ?P = "\<lambda>doc :: stored_item. case expiration_date doc of
                     BNull \<Rightarrow> False
                   | BDate t \<Rightarrow> s \<le> t \<and> t \<le> e"
  let ?Q = "\<lambda>i. truthy (expiration_date i) \<and> s \<le> dms (expiration_date i)
                          \<and> dms (expiration_date i) \<le> e"
  let ?zs = "zip items [0 ..< length items]"
  have v: "spec_item_of_stored \<circ> ?f = (\<lambda>p. spec_item_of_detected dms (fst p))"
    by (rule ext) (simp add: spec_item_of_stored_def spec_item_of_detected_def case_prod_unfold)
  have q: "?P \<circ> ?f = (\<lambda>p. ?Q (fst p))"
    by (rule ext) (simp add: case_prod_unfold)
  have "map spec_item_of_stored (queryExpiringBetween s e (itemsToInsert dms ts items n)) =
        map spec_item_of_stored (filter ?P (map ?f ?zs))"
    by (simp only: queryExpiringBetween_def itemsToInsert_def)
  also have "\<dots> = map (spec_item_of_stored \<circ> ?f) (filter (?P \<circ> ?f) ?zs)"
    by (simp only: filter_map map_map)
  also have "\<dots> = map (\<lambda>p. spec_item_of_detected dms (fst p)) (filter (\<lambda>p. ?Q (fst p)) ?zs)"
    by (simp only: v q)
  also have "\<dots> = map (spec_item_of_detected dms) (filter ?Q items)"
    by (rule map_filter_fst_zip_upt)
  finally show ?thesis .
qed

text \<open>
  C2. For every collection of stored items and every window, the expiring-items query
  returns exactly the documents whose expiration date is a date within the window, both
  ends included; a document whose expiration date is null is never returned. An item
  detected with no expiration date is stored with null, so of the items of an ingest
  cycle the query returns those with a date in the window.
\<close>

theorem queryExpiringBetween_exact:
  "mset (queryExpiringBetween s e docs) =
     filter_mset (\<lambda>doc. \<exists>t. expiration_date doc = BDate t \<and> s \<le> t \<and> t \<le> e) (mset docs)
   \<and> set (queryExpiringBetween s e docs) =
       {doc \<in> set docs. \<exists>t. expiration_date doc = BDate t \<and> s \<le> t \<and> t \<le> e}
   \<and> (\<forall>doc \<in> set docs. expiration_date doc = BNull \<longrightarrow> doc \<notin> set (queryExpiringBetween s e docs))
   \<and> map spec_item_of_stored (queryExpiringBetween s e (itemsToInsert dms ts items n)) =
       map (spec_item_of_detected dms)
         (filter (\<lambda>i. truthy (expiration_date i) \<and> s \<le> dms (expiration_date i)
                       \<and> dms (expiration_date i) \<le> e) items)"
proof -
  have p: "(\<lambda>doc. case expiration_date doc of BNull \<Rightarrow> False | BDate t \<Rightarrow> s \<le> t \<and> t \<le> e) =
           (\<lambda>doc :: stored_item. \<exists>t. expiration_date doc = BDate t \<and> s \<le> t \<and> t \<le> e)"
    by (rule ext) (auto split: bson_date.splits)
  have 1: "mset (queryExpiringBetween s e docs) =
     filter_mset (\<lambda>doc. \<exists>t. expiration_date doc = BDate t \<and> s \<le> t \<and> t \<le> e) (mset docs)"
    by (simp add: queryExpiringBetween_def p)
  have 2: "set (queryExpiringBetween s e docs) =
       {doc \<in> set docs. \<exists>t. expiration_date doc = BDate t \<and> s \<le> t \<and> t \<le> e}"
    by (simp add: queryExpiringBetween_def p)
  have 3: "\<forall>doc \<in> set docs. expiration_date doc = BNull \<longrightarrow> doc \<notin> set (queryExpiringBetween s e docs)"
    by (simp add: queryExpiringBetween_def)
  from 1 2 3 query_itemsToInsert show ?thesis by blast
qed

theorem queryExpiringBetween_exact_witness:
  "queryExpiringBetween 1000 2000 three_docs =
     [\<lparr>name = JStr ''milk'', expiration_date = BDate 2000, others = [], last_seen = 1, doc_id = 1\<rparr>]
   \<and> map spec_item_of_stored (queryExpiringBetween 0 1000 (itemsToInsert (\<lambda>_. 777) 5 [milk, eggs] 0)) =
       [(JStr ''milk'', Some 777, [])]"
proof -
  have a: "queryExpiringBetween 1000 2000 three_docs =
     [\<lparr>name = JStr ''milk'', expiration_date = BDate 2000, others = [], last_seen = 1, doc_id = 1\<rparr>]"
    by (simp add: queryExpiringBetween_def three_docs_def)
  from queryExpiringBetween_exact [of 0 1000 three_docs "\<lambda>_. 777" 5 "[milk, eggs]" 0]
  have "map spec_item_of_stored (queryExpiringBetween 0 1000 (itemsToInsert (\<lambda>_. 777) 5 [milk, eggs] 0)) =
       map (spec_item_of_detected (\<lambda>_. 777))
         (filter (\<lambda>i. truthy (expiration_date i) \<and> 0 \<le> (777::int) \<and> (777::int) \<le> 1000) [milk, eggs])"
    by blast
  then have b: "map spec_item_of_stored (queryExpiringBetween 0 1000 (itemsToInsert (\<lambda>_. 777) 5 [milk, eggs] 0)) =
       [(JStr ''milk'', Some 777, [])]"
    by (simp add: milk_def eggs_def spec_item_of_detected_def)
  from a b show ?thesis by simp
qed

lemma recipe_handler_expiring:
  assumes "expiry_limit env days = Some limit" "\<not> find_fails env"
    and "queryExpiringBetween (clock_today env) limit (fridge_items d) \<noteq> []"
  shows "recipe_handler env days d =
           recipe_for_names env [FindExpiring (clock_today env) limit]
             (map name (queryExpiringBetween (clock_today env) limit (fridge_items d)))"
  using assms by (simp add: recipe_handler_def Let_def)

lemma recipe_handler_fallback:
  assumes "expiry_limit env days = Some limit" "\<not> find_fails env" "\<not> aggregate_fails env"
    and "queryExpiringBetween (clock_today env) limit (fridge_items d) = []"
  shows "recipe_handler env days d =
           recipe_for_names env [FindExpiring (clock_today env) limit, Sample 3]
             (map name (sample env 3 (fridge_items d)))"
  using assms by (simp add: recipe_handler_def Let_def)

lemma recipe_for_names_empty:
  "recipe_for_names env qs [] =
     \<lparr>recipe_response = NoItemsFound, recipe_console = [], store_queries = qs, hf_prompts = []\<rparr>"
  by (simp add: recipe_for_names_def)

lemma recipe_for_names_nonempty:
  assumes "names \<noteq> []"
  shows "\<exists>recipes. recipe_response (recipe_for_names env qs names) = RecipeSuccess names recipes
           \<and> store_queries (recipe_for_names env qs names) = qs
           \<and> hf_prompts (recipe_for_names env qs names) = [prompt (str_of env) names]"
  using assms
  by (auto simp: recipe_for_names_def getRecipeFromHF_def split: hf_outcome.splits jsval.splits)

text \<open>
  C6. Take a recipe request whose window is valid and whose database reads succeed. If no
  stored item expires within the window, the store is asked for a sample of 3 and the names
  of the sampled documents (at most 3, all of them in the store) become the topic set. If
  that list is empty, which is the case exactly when the fridge has no items at all, the
  response is the not-found one (404) and no prompt is sent to the text-generation
  service; otherwise the response is a success for those names.
\<close>

theorem recipe_fallback_and_not_found:
  assumes "expiry_limit env days = Some limit"
    and "\<not> find_fails env" and "\<not> aggregate_fails env"
    and "queryExpiringBetween (clock_today env) limit (fridge_items d) = []"
    and "sample_ok (sample env) (fridge_items d)"
  shows "store_queries (recipe_handler env days d) = [FindExpiring (clock_today env) limit, Sample 3]
         \<and> set (sample env 3 (fridge_items d)) \<subseteq> set (fridge_items d)
         \<and> length (sample env 3 (fridge_items d)) \<le> 3
         \<and> (map name (sample env 3 (fridge_items d)) = [] \<longleftrightarrow> fridge_items d = [])
         \<and> (map name (sample env 3 (fridge_items d)) = [] \<longrightarrow>
              recipe_response (recipe_handler env days d) = NoItemsFound
              \<and> recipe_status (recipe_response (recipe_handler env days d)) = 404
              \<and> hf_prompts (recipe_handler env days d) = [])
         \<and> (map name (sample env 3 (fridge_items d)) \<noteq> [] \<longrightarrow>
              (\<exists>recipes. recipe_response (recipe_handler env days d) =
                 RecipeSuccess (map name (sample env 3 (fridge_items d))) recipes))"
proof -
  let ?names = "map name (sample env 3 (fridge_items d))"
  let ?qs = "[FindExpiring (clock_today env) limit, Sample 3]"
  have h: "recipe_handler env days d = recipe_for_names env ?qs ?names"
    using assms(1-4) by (rule recipe_handler_fallback)
  have s: "set (sample env 3 (fridge_items d)) \<subseteq> set (fridge_items d)"
       "length (sample env 3 (fridge_items d)) \<le> 3"
       "sample env 3 (fridge_items d) = [] \<longrightarrow> fridge_items d = []"
    using assms(5) by (simp_all add: sample_ok_def)
  have e: "?names = [] \<longleftrightarrow> fridge_items d = []"
    using s(1,3) by auto
  have q: "store_queries (recipe_for_names env ?qs ?names) = ?qs"
    using recipe_for_names_empty [of env ?qs] recipe_for_names_nonempty [of ?names env ?qs]
    by (cases "?names = []") auto
  have n: "?names = [] \<longrightarrow>
             recipe_response (recipe_for_names env ?qs ?names) = NoItemsFound
             \<and> recipe_status (recipe_response (recipe_for_names env ?qs ?names)) = 404
             \<and> hf_prompts (recipe_for_names env ?qs ?names) = []"
    by (simp add: recipe_for_names_empty)
  have y: "?names \<noteq> [] \<longrightarrow>
             (\<exists>recipes. recipe_response (recipe_for_names env ?qs ?names) = RecipeSuccess ?names recipes)"
    using recipe_for_names_nonempty [of ?names env ?qs] by blast
  from q s(1,2) e n y show ?thesis unfolding h by blast
qed

theorem recipe_fallback_and_not_found_witness:
  "recipe_response (recipe_handler recipe_env0 None (old_db\<lparr>fridge_items := []\<rparr>)) = NoItemsFound
   \<and> hf_prompts (recipe_handler recipe_env0 None (old_db\<lparr>fridge_items := []\<rparr>)) = []
   \<and> store_queries (recipe_handler recipe_env0 None old_db) = [FindExpiring 1000 259201000, Sample 3]
   \<and> (\<exists>recipes. recipe_response (recipe_handler recipe_env0 None old_db) =
         RecipeSuccess [JStr ''butter''] recipes)"
proof -
  have h1: "expiry_limit recipe_env0 None = Some 259201000"
    by (simp add: expiry_limit_def days_to_expire_def Date_setDate_def recipe_env0_def)
  have h2: "\<not> find_fails recipe_env0" and h3: "\<not> aggregate_fails recipe_env0"
    by (simp_all add: recipe_env0_def)
  have t: "clock_today recipe_env0 = 1000"
    by (simp add: recipe_env0_def)
  have h4: "queryExpiringBetween (clock_today recipe_env0) 259201000 (fridge_items old_db) = []"
    by (simp add: queryExpiringBetween_def old_db_def t)
  have h5: "sample_ok (sample recipe_env0) (fridge_items old_db)"
    by (simp add: sample_ok_def recipe_env0_def old_db_def)
  have h4': "queryExpiringBetween (clock_today recipe_env0) 259201000
               (fridge_items (old_db\<lparr>fridge_items := []\<rparr>)) = []"
    by (simp add: queryExpiringBetween_def)
  have h5': "sample_ok (sample recipe_env0) (fridge_items (old_db\<lparr>fridge_items := []\<rparr>))"
    by (simp add: sample_ok_def recipe_env0_def)
  have s: "map name (sample recipe_env0 3 (fridge_items old_db)) = [JStr ''butter'']"
    by (simp add: recipe_env0_def old_db_def)
  have s': "map name (sample recipe_env0 3 (fridge_items (old_db\<lparr>fridge_items := []\<rparr>))) = []"
    by (simp add: recipe_env0_def)
  from recipe_fallback_and_not_found [OF h1 h2 h3 h4' h5'] s'
  have a: "recipe_response (recipe_handler recipe_env0 None (old_db\<lparr>fridge_items := []\<rparr>)) = NoItemsFound
           \<and> hf_prompts (recipe_handler recipe_env0 None (old_db\<lparr>fridge_items := []\<rparr>)) = []"
    by simp
  from recipe_fallback_and_not_found [OF h1 h2 h3 h4 h5] s t
  have b: "store_queries (recipe_handler recipe_env0 None old_db) = [FindExpiring 1000 259201000, Sample 3]
           \<and> (\<exists>recipes. recipe_response (recipe_handler recipe_env0 None old_db) =
                 RecipeSuccess [JStr ''butter''] recipes)"
    by simp
  from a b show ?thesis by blast
qed

lemma recipe_handler_nan_days:
  assumes "days_to_expire env days = NaN"
  shows "recipe_handler env days d =
           \<lparr>recipe_response = RecipeError, recipe_console = [RecipeFailed],
            store_queries = [], hf_prompts = []\<rparr>"
  using assms by (simp add: recipe_handler_def expiry_limit_def Date_setDate_def)

text \<open>
  C10 (as amended). Take a recipe request whose \<open>days\<close> parameter is present (not
  empty) and does not parse as an integer. The request is not rejected as a client error:
  the parsed value is NaN and the end of the window is an invalid date. Formatting that
  date for the log line throws, so the handler answers with the server error 500; no
  query is sent to the store and no prompt to the text-generation service.
\<close>

theorem recipe_days_not_a_number:
  assumes "s \<noteq> []"
    and "parseInt10 (big_int env) s = NaN"
  shows "days_to_expire env (Some s) = NaN
         \<and> expiry_limit env (Some s) = None
         \<and> recipe_handler env (Some s) d =
             \<lparr>recipe_response = RecipeError, recipe_console = [RecipeFailed],
              store_queries = [], hf_prompts = []\<rparr>
         \<and> recipe_status (recipe_response (recipe_handler env (Some s) d)) = 500"
proof -
  have n: "days_to_expire env (Some s) = NaN"
    using assms by (simp add: days_to_expire_def)
  then have l: "expiry_limit env (Some s) = None"
    by (simp add: expiry_limit_def Date_setDate_def)
  from n have h: "recipe_handler env (Some s) d =
             \<lparr>recipe_response = RecipeError, recipe_console = [RecipeFailed],
              store_queries = [], hf_prompts = []\<rparr>"
    by (rule recipe_handler_nan_days)
  from n l h show ?thesis by simp
qed

theorem recipe_days_not_a_number_witness:
  "recipe_handler recipe_env0 (Some ''abc'') old_db =
     \<lparr>recipe_response = RecipeError, recipe_console = [RecipeFailed],
      store_queries = [], hf_prompts = []\<rparr>
   \<and> recipe_status (recipe_response (recipe_handler recipe_env0 (Some ''abc'') old_db)) = 500"
proof -
  have h1: "''abc'' \<noteq> []" by simp
  have h2: "parseInt10 (big_int recipe_env0) ''abc'' = NaN"
    by (simp add: parseInt10_def js_space_def is_digit_def)
  from recipe_days_not_a_number [OF h1 h2, of old_db] show ?thesis by blast
qed

text \<open>
  The claim as written lets such a request go on to the random sample, as a request with
  no expiring item does. With one item in the fridge, the request without the parameter
  samples the store and succeeds; the request with \<open>days=abc\<close> sends no query at all and
  fails.
\<close>

theorem recipe_days_abc_counterexample:
  "store_queries (recipe_handler recipe_env0 None old_db) = [FindExpiring 1000 259201000, Sample 3]
   \<and> recipe_status (recipe_response (recipe_handler recipe_env0 None old_db)) = 200
   \<and> parseInt10 (big_int recipe_env0) ''abc'' = NaN
   \<and> store_queries (recipe_handler recipe_env0 (Some ''abc'') old_db) = []
   \<and> recipe_response (recipe_handler recipe_env0 (Some ''abc'') old_db) = RecipeError"
proof -
  have a: "recipe_handler recipe_env0 None old_db =
             recipe_for_names recipe_env0 [FindExpiring 1000 259201000, Sample 3] [JStr ''butter'']"
    by (simp add: recipe_handler_def expiry_limit_def days_to_expire_def Date_setDate_def
        recipe_env0_def queryExpiringBetween_def old_db_def)
  have b: "store_queries (recipe_for_names recipe_env0 [FindExpiring 1000 259201000, Sample 3]
             [JStr ''butter'']) = [FindExpiring 1000 259201000, Sample 3]
           \<and> recipe_status (recipe_response (recipe_for_names recipe_env0
               [FindExpiring 1000 259201000, Sample 3] [JStr ''butter''])) = 200"
    using recipe_for_names_nonempty
      [of "[JStr ''butter'']" recipe_env0 "[FindExpiring 1000 259201000, Sample 3]"]
    by auto
  have c: "parseInt10 (big_int recipe_env0) ''abc'' = NaN"
    by (simp add: parseInt10_def js_space_def is_digit_def)
  have d: "recipe_handler recipe_env0 (Some ''abc'') old_db =
       \<lparr>recipe_response = RecipeError, recipe_console = [RecipeFailed],
        store_queries = [], hf_prompts = []\<rparr>"
    using c by (simp add: recipe_handler_nan_days days_to_expire_def)
  from a b c d show ?thesis by simp
qed


end
